theory Spec2Isabelle
  imports Main
begin

unbundle bit_operations_syntax

section \<open>Storage types and ring widths\<close>

text \<open>
  The share-conversion kernels of \<^verbatim>\<open>libspu/mpc/alkaid\<close> work on dense arrays of
  unsigned machine integers. An element is modelled as a natural number together with
  the storage type that bounds it; a C++ conversion to a storage type of \<open>w\<close> bits is
  \<open>take_bit w\<close>, ring addition is addition followed by \<open>take_bit\<close>.
\<close>

datatype PtType = PT_U8 | PT_U16 | PT_U32 | PT_U64 | PT_U128

text \<open>Modelled from the spec: the ring widths \<open>k \<in> {8,16,32,64,128}\<close> of section 3
  (\<^verbatim>\<open>FieldType\<close> is declared in \<^verbatim>\<open>libspu/core/type_util.h\<close>).\<close>

datatype FieldType = FM8 | FM16 | FM32 | FM64 | FM128

datatype error =
    InvalidNbits nat
  | EnforceFailed
  | AssertFailed
  | UndefinedBehaviour
  | UnexpectedRank nat

text \<open>Modelled from the spec: \<^verbatim>\<open>SizeOf\<close> gives the size in bytes of a storage type or of
  a field's ring element, \<^verbatim>\<open>GetStorageType\<close> the unsigned storage type of a field.\<close>

fun SizeOf :: "PtType \<Rightarrow> nat" where
  "SizeOf PT_U8 = 1"
| "SizeOf PT_U16 = 2"
| "SizeOf PT_U32 = 4"
| "SizeOf PT_U64 = 8"
| "SizeOf PT_U128 = 16"

fun GetStorageType :: "FieldType \<Rightarrow> PtType" where
  "GetStorageType FM8 = PT_U8"
| "GetStorageType FM16 = PT_U16"
| "GetStorageType FM32 = PT_U32"
| "GetStorageType FM64 = PT_U64"
| "GetStorageType FM128 = PT_U128"

definition SizeOfField :: "FieldType \<Rightarrow> nat" where
  "SizeOfField field = SizeOf (GetStorageType field)"

definition bits_of :: "PtType \<Rightarrow> nat" where
  "bits_of ty = SizeOf ty * 8"

definition field_bits :: "FieldType \<Rightarrow> nat" where
  "field_bits field = SizeOfField field * 8"

text \<open>\<^verbatim>\<open>static_cast<T>(v)\<close> and the implicit conversion of an assignment to an
  element of storage type \<open>T\<close>.\<close>

definition cast :: "PtType \<Rightarrow> nat \<Rightarrow> nat" where
  "cast ty v = take_bit (bits_of ty) v"

text \<open>\<^verbatim>\<open>PtType calcBShareBacktype(size_t nbits)\<close> of \<^verbatim>\<open>value.cc\<close>.\<close>

definition calcBShareBacktype :: "nat \<Rightarrow> error + PtType" where
  "calcBShareBacktype nbits =
     (if nbits \<le> 8 then Inr PT_U8
      else if nbits \<le> 16 then Inr PT_U16
      else if nbits \<le> 32 then Inr PT_U32
      else if nbits \<le> 64 then Inr PT_U64
      else if nbits \<le> 128 then Inr PT_U128
      else Inl (InvalidNbits nbits))"

text \<open>The constructor \<^verbatim>\<open>BShrTy(PtType back_type, size_t nbits)\<close> of \<^verbatim>\<open>type.h\<close>
  (and the identical one of \<^verbatim>\<open>BShrTyMrss\<close>): it enforces that the storage type has
  room for \<open>nbits\<close> bits.\<close>

definition BShrTy :: "PtType \<Rightarrow> nat \<Rightarrow> error + (PtType \<times> nat)" where
  "BShrTy back_type nbits =
     (if SizeOf back_type * 8 \<ge> nbits then Inr (back_type, nbits) else Inl EnforceFailed)"

section \<open>Three parties, their randomness and their channels\<close>

text \<open>
  Every kernel is run by three parties of rank 0, 1 and 2. A value held by each of them
  is a triple, indexed by rank.
\<close>

type_synonym 'a parties = "'a \<times> 'a \<times> 'a"

fun party :: "'a parties \<Rightarrow> nat \<Rightarrow> 'a" where
  "party (a, b, c) rank = (if rank = 0 then a else if rank = 1 then b else c)"

definition each_party :: "(nat \<Rightarrow> 'a) \<Rightarrow> 'a parties" where
  "each_party f = (f 0, f 1, f 2)"

text \<open>The two compile-time switches at the head of \<^verbatim>\<open>conversion.cc\<close>; the source
  leaves both undefined.\<close>

record Config =
  EQ_USE_OFFLINE :: bool
  EQ_USE_PRG_STATE :: bool

definition source_config :: Config where
  "source_config = \<lparr>EQ_USE_OFFLINE = False, EQ_USE_PRG_STATE = False\<rparr>"

text \<open>Modelled from the spec: the shared pseudo-random generator state
  (\<^verbatim>\<open>libspu/mpc/common/prg_state.h\<close>). A party holds one stream shared with the previous
  rank, one shared with the next rank, a stream public to all three and a private one,
  each with a cursor. \<^verbatim>\<open>fillPrssPair(r0, r1, n, ctrl)\<close> fills \<open>r0\<close> from the stream
  shared with the previous rank and \<open>r1\<close> from the one shared with the next rank, as
  \<open>ctrl\<close> asks, and moves the cursor in every case.\<close>

record PrgState =
  prss_r0 :: "nat \<Rightarrow> nat \<Rightarrow> nat"
  prss_r1 :: "nat \<Rightarrow> nat \<Rightarrow> nat"
  prss_ctr :: nat
  publ :: "nat \<Rightarrow> nat"
  publ_ctr :: nat
  priv :: "nat \<Rightarrow> nat \<Rightarrow> nat"
  priv_ctr :: nat

datatype GenPrssCtrl = Both | First | Second | NoneCtrl

definition fillPrssPair ::
  "PtType \<Rightarrow> nat \<Rightarrow> GenPrssCtrl \<Rightarrow> PrgState \<Rightarrow> (nat list \<times> nat list) \<times> PrgState" where
  "fillPrssPair ty n ctrl g =
     ((if ctrl = Both \<or> ctrl = First
         then map (\<lambda>idx. cast ty (prss_r0 g (prss_ctr g) idx)) [0..<n] else [],
       if ctrl = Both \<or> ctrl = Second
         then map (\<lambda>idx. cast ty (prss_r1 g (prss_ctr g) idx)) [0..<n] else []),
      g\<lparr>prss_ctr := prss_ctr g + 1\<rparr>)"

definition fillPubl :: "PrgState \<Rightarrow> nat \<times> PrgState" where
  "fillPubl g = (take_bit 64 (publ g (publ_ctr g)), g\<lparr>publ_ctr := publ_ctr g + 1\<rparr>)"

definition fillPriv :: "PtType \<Rightarrow> nat \<Rightarrow> PrgState \<Rightarrow> nat list \<times> PrgState" where
  "fillPriv ty n g =
     (map (\<lambda>idx. cast ty (priv g (priv_ctr g) idx)) [0..<n], g\<lparr>priv_ctr := priv_ctr g + 1\<rparr>)"

text \<open>The three generator states are correlated when neighbouring ranks share their
  pairwise stream and all cursors and the public stream agree.\<close>

definition prg_correlated :: "PrgState parties \<Rightarrow> bool" where
  "prg_correlated gs =
     (case gs of (g0, g1, g2) \<Rightarrow>
        prss_r1 g0 = prss_r0 g1 \<and> prss_r1 g1 = prss_r0 g2 \<and> prss_r1 g2 = prss_r0 g0
      \<and> prss_ctr g0 = prss_ctr g1 \<and> prss_ctr g1 = prss_ctr g2
      \<and> publ g0 = publ g1 \<and> publ g1 = publ g2
      \<and> publ_ctr g0 = publ_ctr g1 \<and> publ_ctr g1 = publ_ctr g2)"

text \<open>Modelled from the spec: the communicator
  (\<^verbatim>\<open>libspu/mpc/common/communicator.h\<close>). \<open>rotate\<close> sends a buffer to the next rank and
  returns the buffer of the previous rank, \<open>rotateR\<close> goes the opposite way, \<open>bcast\<close>
  gives everyone the root's buffer, and a \<open>sendAsync\<close> is matched by the \<open>recv\<close> of the
  addressee. Every call is recorded in the log of the run.\<close>

datatype comm_event =
    Rotate string
  | RotateR string
  | Bcast nat string
  | SendAsync nat nat string
  | Recv nat nat string
  | AddCommStats int int

record World =
  cfg :: Config
  default_field :: FieldType
  prgs :: "PrgState parties"
  comm_log :: "comm_event list"

type_synonym ('s, 'a) run = "'s \<Rightarrow> error + ('a \<times> 's)"

definition bindK :: "('s, 'a) run \<Rightarrow> ('a \<Rightarrow> ('s, 'b) run) \<Rightarrow> ('s, 'b) run" where
  "bindK m f s = (case m s of Inl e \<Rightarrow> Inl e | Inr (x, s') \<Rightarrow> f x s')"

definition returnK :: "'a \<Rightarrow> ('s, 'a) run" where
  "returnK x s = Inr (x, s)"

definition liftE :: "error + 'a \<Rightarrow> ('s, 'a) run" where
  "liftE r s = (case r of Inl e \<Rightarrow> Inl e | Inr x \<Rightarrow> Inr (x, s))"

definition bindE :: "error + 'a \<Rightarrow> ('a \<Rightarrow> error + 'b) \<Rightarrow> error + 'b" where
  "bindE r f = (case r of Inl e \<Rightarrow> Inl e | Inr x \<Rightarrow> f x)"

text \<open>A stretch of code without communication, run by each party on its own generator
  state; and one that touches no state at all.\<close>

definition local3 :: "(nat \<Rightarrow> (PrgState, 'a) run) \<Rightarrow> (World, 'a parties) run" where
  "local3 f w =
     (case prgs w of (g0, g1, g2) \<Rightarrow>
        (case f 0 g0 of Inl e \<Rightarrow> Inl e | Inr (x0, h0) \<Rightarrow>
        (case f 1 g1 of Inl e \<Rightarrow> Inl e | Inr (x1, h1) \<Rightarrow>
        (case f 2 g2 of Inl e \<Rightarrow> Inl e | Inr (x2, h2) \<Rightarrow>
           Inr ((x0, x1, x2), w\<lparr>prgs := (h0, h1, h2)\<rparr>)))))"

definition pure3 :: "(nat \<Rightarrow> error + 'a) \<Rightarrow> (World, 'a parties) run" where
  "pure3 f w =
     (case f 0 of Inl e \<Rightarrow> Inl e | Inr x0 \<Rightarrow>
     (case f 1 of Inl e \<Rightarrow> Inl e | Inr x1 \<Rightarrow>
     (case f 2 of Inl e \<Rightarrow> Inl e | Inr x2 \<Rightarrow> Inr ((x0, x1, x2), w))))"

definition rotate :: "'a parties \<Rightarrow> string \<Rightarrow> (World, 'a parties) run" where
  "rotate bufs tag w =
     Inr ((case bufs of (b0, b1, b2) \<Rightarrow> (b2, b0, b1)), w\<lparr>comm_log := comm_log w @ [Rotate tag]\<rparr>)"

definition rotateR :: "'a parties \<Rightarrow> string \<Rightarrow> (World, 'a parties) run" where
  "rotateR bufs tag w =
     Inr ((case bufs of (b0, b1, b2) \<Rightarrow> (b1, b2, b0)), w\<lparr>comm_log := comm_log w @ [RotateR tag]\<rparr>)"

definition bcast :: "'a parties \<Rightarrow> nat \<Rightarrow> string \<Rightarrow> (World, 'a parties) run" where
  "bcast bufs root tag w =
     Inr ((party bufs root, party bufs root, party bufs root),
          w\<lparr>comm_log := comm_log w @ [Bcast root tag]\<rparr>)"

definition send_recv :: "nat \<Rightarrow> nat \<Rightarrow> 'a \<Rightarrow> string \<Rightarrow> (World, 'a) run" where
  "send_recv src dst buf tag w =
     Inr (buf, w\<lparr>comm_log := comm_log w @ [SendAsync src dst tag, Recv dst src tag]\<rparr>)"

definition addCommStatsManually :: "int \<Rightarrow> int \<Rightarrow> (World, unit) run" where
  "addCommStatsManually rounds bytes w =
     Inr ((), w\<lparr>comm_log := comm_log w @ [AddCommStats rounds bytes]\<rparr>)"

text \<open>A kernel reads the compile-time switches from its context.\<close>

definition with_cfg :: "(Config \<Rightarrow> (World, 'a) run) \<Rightarrow> (World, 'a) run" where
  "with_cfg f w = f (cfg w) w"

text \<open>The message tags of the kernels.\<close>

definition tag_ass2rss :: string where
  "tag_ass2rss = ''Resharing ASS to RSS, online''"

definition tag_ass2mss_1 :: string where
  "tag_ass2mss_1 = ''Resharing ASS to MSS, online, message 1''"

definition tag_ass2mss_2 :: string where
  "tag_ass2mss_2 = ''Resharing ASS to MSS, online, message 2''"

definition tag_mss_and_offline :: string where
  "tag_mss_and_offline = ''MssAndBB, offline''"

definition tag_bcast_Dm :: string where
  "tag_bcast_Dm = ''MsbA2B, special resharing from ASS to MSS, broadcast Dm''"

definition tag_send_dn2 :: string where
  "tag_send_dn2 = ''MsbA2B, special resharing from ASS to MSS, send dn2''"

section \<open>Share arrays\<close>

text \<open>
  One party's slice of a shared array. A Boolean replicated (B/RSS) element holds two
  slots; the same container carries an additive (ASS) share in its first slot. A
  masked (B/MSS) element holds the public value and two mask slots; an arithmetic
  replicated (A/RSS) element holds two ring elements. Arrays are flat: the shape is the
  number of elements.
\<close>

record BShrArray =
  b_backtype :: PtType
  b_nbits :: nat
  b_elems :: "(nat \<times> nat) list"

record MssArray =
  m_backtype :: PtType
  m_nbits :: nat
  m_elems :: "(nat \<times> nat \<times> nat) list"

record AShrArray =
  a_field :: FieldType
  a_elems :: "(nat \<times> nat) list"

text \<open>\<^verbatim>\<open>NdArrayRef(type, shape)\<close> allocates without initialising. A slot that a kernel
  never assigns is modelled as \<open>uninit\<close>; the additive kernels leave the second slot
  of their output so, and none of their consumers reads it.\<close>

definition uninit :: nat where
  "uninit = 0"

text \<open>\<^verbatim>\<open>std::fill(r.begin(), r.end(), 0)\<close> under a preprocessor condition.\<close>

definition zero_fill_if :: "bool \<Rightarrow> nat list \<Rightarrow> nat list" where
  "zero_fill_if c r = (if c then replicate (length r) 0 else r)"

text \<open>The secret carried by the three slices of one element.\<close>

definition xor3 :: "nat parties \<Rightarrow> nat" where
  "xor3 v = (case v of (v0, v1, v2) \<Rightarrow> v0 XOR v1 XOR v2)"

definition reconstruct_b :: "BShrArray parties \<Rightarrow> nat list" where
  "reconstruct_b x =
     (case x of (x0, x1, x2) \<Rightarrow>
        map (\<lambda>(e0, e1, e2). fst e0 XOR fst e1 XOR fst e2)
            (zip (b_elems x0) (zip (b_elems x1) (b_elems x2))))"

definition reconstruct_a :: "AShrArray parties \<Rightarrow> nat list" where
  "reconstruct_a x =
     (case x of (x0, x1, x2) \<Rightarrow>
        map (\<lambda>(e0, e1, e2). take_bit (field_bits (a_field x0)) (fst e0 + fst e1 + fst e2))
            (zip (a_elems x0) (zip (a_elems x1) (a_elems x2))))"

text \<open>Well-formed replicated sharings (section 3 of the spec): the second slot of rank
  \<open>i\<close> is the first slot of rank \<open>i + 1\<close>, the three slices have one type and one
  shape, and every slot fits \<open>nbits\<close> bits, which fit the storage type.\<close>

definition rss_consistent :: "(nat \<times> nat) list parties \<Rightarrow> bool" where
  "rss_consistent es =
     (case es of (e0, e1, e2) \<Rightarrow>
        length e1 = length e0 \<and> length e2 = length e0
      \<and> map snd e0 = map fst e1 \<and> map snd e1 = map fst e2 \<and> map snd e2 = map fst e0)"

definition wf_brss :: "BShrArray parties \<Rightarrow> bool" where
  "wf_brss x =
     (case x of (x0, x1, x2) \<Rightarrow>
        b_backtype x1 = b_backtype x0 \<and> b_backtype x2 = b_backtype x0
      \<and> b_nbits x1 = b_nbits x0 \<and> b_nbits x2 = b_nbits x0
      \<and> b_nbits x0 \<le> bits_of (b_backtype x0)
      \<and> rss_consistent (b_elems x0, b_elems x1, b_elems x2)
      \<and> (\<forall>e \<in> set (b_elems x0) \<union> set (b_elems x1) \<union> set (b_elems x2).
            fst e < 2 ^ b_nbits x0 \<and> snd e < 2 ^ b_nbits x0))"

definition wf_arss :: "AShrArray parties \<Rightarrow> bool" where
  "wf_arss x =
     (case x of (x0, x1, x2) \<Rightarrow>
        a_field x1 = a_field x0 \<and> a_field x2 = a_field x0
      \<and> rss_consistent (a_elems x0, a_elems x1, a_elems x2)
      \<and> (\<forall>e \<in> set (a_elems x0) \<union> set (a_elems x1) \<union> set (a_elems x2).
            fst e < 2 ^ field_bits (a_field x0) \<and> snd e < 2 ^ field_bits (a_field x0)))"

section \<open>Resharing operators\<close>

text \<open>\<^verbatim>\<open>ResharingRss2Ass\<close>: local. Every party keeps its first slot and clears the
  second.\<close>

definition ResharingRss2Ass :: "BShrArray \<Rightarrow> error + BShrArray" where
  "ResharingRss2Ass inp =
     bindE (calcBShareBacktype (b_nbits inp)) (\<lambda>out_btype.
       Inr \<lparr>b_backtype = out_btype, b_nbits = b_nbits inp,
            b_elems = map (\<lambda>i. (cast out_btype (fst i), 0)) (b_elems inp)\<rparr>)"

text \<open>\<^verbatim>\<open>ResharingMss2Rss\<close>: local.\<close>

definition ResharingMss2Rss :: "MssArray \<Rightarrow> error + BShrArray" where
  "ResharingMss2Rss inp =
     bindE (calcBShareBacktype (m_nbits inp)) (\<lambda>out_btype.
       Inr \<lparr>b_backtype = out_btype, b_nbits = m_nbits inp,
            b_elems = map (\<lambda>(i0, i1, i2). (cast out_btype (i0 XOR i1), cast out_btype (i0 XOR i2)))
                          (m_elems inp)\<rparr>)"

text \<open>\<^verbatim>\<open>ResharingAss2Rss\<close>: the code before the rotation, run by one party, returns the
  buffer to send (which is also the first output slot); the code after it stores the
  received buffer in the second slot.\<close>

definition ResharingAss2Rss_send :: "Config \<Rightarrow> BShrArray \<Rightarrow> (PrgState, PtType \<times> nat list) run" where
  "ResharingAss2Rss_send c inp =
     bindK (liftE (calcBShareBacktype (b_nbits inp))) (\<lambda>out_btype g.
       (case fillPrssPair out_btype (length (b_elems inp)) Both g of ((r0, r1), g') \<Rightarrow>
          let r0 = zero_fill_if (\<not> EQ_USE_PRG_STATE c) r0;
              r1 = zero_fill_if (\<not> EQ_USE_PRG_STATE c) r1
          in Inr ((out_btype,
                   map (\<lambda>(i, m0, m1). cast out_btype (fst i XOR m0 XOR m1))
                       (zip (b_elems inp) (zip r0 r1))), g')))"

definition ResharingAss2Rss :: "BShrArray parties \<Rightarrow> (World, BShrArray parties) run" where
  "ResharingAss2Rss inp =
     with_cfg (\<lambda>c.
       bindK (local3 (\<lambda>rank. ResharingAss2Rss_send c (party inp rank))) (\<lambda>sent.
       bindK (rotate (each_party (\<lambda>rank. snd (party sent rank))) tag_ass2rss) (\<lambda>got.
         returnK (each_party (\<lambda>rank.
           \<lparr>b_backtype = fst (party sent rank), b_nbits = b_nbits (party inp rank),
            b_elems = zip (snd (party sent rank)) (party got rank)\<rparr>)))))"

text \<open>\<^verbatim>\<open>ResharingAss2Mss\<close>: before the two rotations a party fixes its two mask slots
  and the two messages; afterwards it computes the public value.\<close>

definition ResharingAss2Mss_send ::
  "Config \<Rightarrow> BShrArray \<Rightarrow> (PrgState, PtType \<times> (nat \<times> nat) list \<times> nat list \<times> nat list) run" where
  "ResharingAss2Mss_send c inp =
     bindK (liftE (calcBShareBacktype (b_nbits inp))) (\<lambda>out_btype g.
       (case fillPrssPair out_btype (length (b_elems inp)) Both g of ((r0, r1), g') \<Rightarrow>
          let r0 = zero_fill_if (\<not> EQ_USE_OFFLINE c \<or> \<not> EQ_USE_PRG_STATE c) r0;
              r1 = zero_fill_if (\<not> EQ_USE_OFFLINE c \<or> \<not> EQ_USE_PRG_STATE c) r1
          in Inr ((out_btype, zip r0 r1,
                   map (\<lambda>(i, m0). cast out_btype (fst i XOR m0)) (zip (b_elems inp) r0),
                   map (\<lambda>(i, m1). cast out_btype (fst i)) (zip (b_elems inp) r1)), g')))"

definition ResharingAss2Mss :: "BShrArray parties \<Rightarrow> (World, MssArray parties) run" where
  "ResharingAss2Mss inp =
     with_cfg (\<lambda>c.
       bindK (local3 (\<lambda>rank. ResharingAss2Mss_send c (party inp rank))) (\<lambda>sent.
       bindK (rotateR (each_party (\<lambda>rank. fst (snd (snd (party sent rank))))) tag_ass2mss_1)
         (\<lambda>got0.
       bindK (rotate (each_party (\<lambda>rank. snd (snd (snd (party sent rank))))) tag_ass2mss_2)
         (\<lambda>got1.
       bindK (addCommStatsManually (- 1) 0) (\<lambda>_.
         returnK (each_party (\<lambda>rank.
           let out_btype = fst (party sent rank) in
           \<lparr>m_backtype = out_btype, m_nbits = b_nbits (party inp rank),
            m_elems = map (\<lambda>(i, (o1, o2), q0, q1).
                             (cast out_btype (fst i XOR o1 XOR o2 XOR q0 XOR q1), o1, o2))
                          (zip (b_elems (party inp rank))
                            (zip (fst (snd (party sent rank)))
                              (zip (party got0 rank) (party got1 rank))))\<rparr>)))))))"

section \<open>Boolean gates\<close>

text \<open>A gate reads \<^verbatim>\<open>_rhs[idx]\<close> for every index of \<open>lhs\<close>; a shorter \<open>rhs\<close> is read
  out of range, which the model reports.\<close>

definition gate_type :: "nat \<Rightarrow> nat \<Rightarrow> nat \<Rightarrow> nat \<Rightarrow> error + (PtType \<times> nat)" where
  "gate_type lhs_nbits rhs_nbits lhs_numel rhs_numel =
     bindE (calcBShareBacktype (min lhs_nbits rhs_nbits)) (\<lambda>out_btype.
       if rhs_numel < lhs_numel then Inl UndefinedBehaviour
       else Inr (out_btype, min lhs_nbits rhs_nbits))"

text \<open>\<^verbatim>\<open>AssXor2\<close> and \<^verbatim>\<open>RssXor2\<close>: local.\<close>

definition AssXor2 :: "BShrArray \<Rightarrow> BShrArray \<Rightarrow> error + BShrArray" where
  "AssXor2 lhs rhs =
     bindE (gate_type (b_nbits lhs) (b_nbits rhs) (length (b_elems lhs)) (length (b_elems rhs)))
       (\<lambda>(out_btype, out_nbits).
          Inr \<lparr>b_backtype = out_btype, b_nbits = out_nbits,
               b_elems = map (\<lambda>(l, r). (cast out_btype (fst l XOR fst r), uninit))
                             (zip (b_elems lhs) (b_elems rhs))\<rparr>)"

definition RssXor2 :: "BShrArray \<Rightarrow> BShrArray \<Rightarrow> error + BShrArray" where
  "RssXor2 lhs rhs =
     bindE (gate_type (b_nbits lhs) (b_nbits rhs) (length (b_elems lhs)) (length (b_elems rhs)))
       (\<lambda>(out_btype, out_nbits).
          Inr \<lparr>b_backtype = out_btype, b_nbits = out_nbits,
               b_elems = map (\<lambda>(l, r). (cast out_btype (fst l XOR fst r),
                                        cast out_btype (snd l XOR snd r)))
                             (zip (b_elems lhs) (b_elems rhs))\<rparr>)"

text \<open>\<^verbatim>\<open>RssAnd2NoComm\<close>: local; the result is additive. The mask pair comes from the
  generator and is overwritten with zeros unless \<^verbatim>\<open>EQ_USE_PRG_STATE\<close> is defined.\<close>

definition RssAnd2NoComm :: "Config \<Rightarrow> BShrArray \<Rightarrow> BShrArray \<Rightarrow> (PrgState, BShrArray) run" where
  "RssAnd2NoComm c lhs rhs =
     bindK (liftE (gate_type (b_nbits lhs) (b_nbits rhs)
                     (length (b_elems lhs)) (length (b_elems rhs))))
       (\<lambda>(out_btype, out_nbits) g.
          (case fillPrssPair out_btype (length (b_elems lhs)) Both g of ((r0, r1), g') \<Rightarrow>
             let r0 = zero_fill_if (\<not> EQ_USE_PRG_STATE c) r0;
                 r1 = zero_fill_if (\<not> EQ_USE_PRG_STATE c) r1
             in Inr (\<lparr>b_backtype = out_btype, b_nbits = out_nbits,
                      b_elems = map (\<lambda>(l, r, m0, m1).
                                  (cast out_btype ((fst l AND fst r) XOR (fst l AND snd r)
                                       XOR (snd l AND fst r) XOR (m0 XOR m1)), uninit))
                                (zip (b_elems lhs) (zip (b_elems rhs) (zip r0 r1)))\<rparr>, g')))"

text \<open>\<^verbatim>\<open>MssAnd2NoComm\<close>: the result is replicated. Before the optional offline
  rotation a party draws the mask pair (zero-filled unless both switches are defined)
  and, under \<^verbatim>\<open>EQ_USE_OFFLINE\<close>, replaces the first mask by its share of the product of
  the two operands' masks.\<close>

definition MssAnd2NoComm_offline ::
  "Config \<Rightarrow> MssArray \<Rightarrow> MssArray \<Rightarrow> (PrgState, (PtType \<times> nat) \<times> nat list \<times> nat list) run" where
  "MssAnd2NoComm_offline c lhs rhs =
     bindK (liftE (gate_type (m_nbits lhs) (m_nbits rhs)
                     (length (m_elems lhs)) (length (m_elems rhs))))
       (\<lambda>(out_btype, out_nbits) g.
          (case fillPrssPair out_btype (length (m_elems lhs)) Both g of ((r0, r1), g') \<Rightarrow>
             let r0 = zero_fill_if (\<not> EQ_USE_PRG_STATE c \<or> \<not> EQ_USE_OFFLINE c) r0;
                 r1 = zero_fill_if (\<not> EQ_USE_PRG_STATE c \<or> \<not> EQ_USE_OFFLINE c) r1;
                 r0 = (if EQ_USE_OFFLINE c
                       then map (\<lambda>((l0, l1, l2), (r0, r1, r2), m0, m1).
                                  cast out_btype ((l1 AND r1) XOR (l1 AND r2) XOR (l2 AND r1)
                                                  XOR (m0 XOR m1)))
                                (zip (m_elems lhs) (zip (m_elems rhs) (zip r0 r1)))
                       else r0)
             in Inr (((out_btype, out_nbits), r0, r1), g')))"

definition MssAnd2NoComm :: "MssArray parties \<Rightarrow> MssArray parties \<Rightarrow> (World, BShrArray parties) run" where
  "MssAnd2NoComm lhs rhs =
     with_cfg (\<lambda>c.
       bindK (local3 (\<lambda>rank. MssAnd2NoComm_offline c (party lhs rank) (party rhs rank)))
         (\<lambda>pre.
       bindK (if \<not> EQ_USE_PRG_STATE c \<or> \<not> EQ_USE_OFFLINE c
              then addCommStatsManually 0 0 else returnK ()) (\<lambda>_.
       bindK (if EQ_USE_OFFLINE c
              then rotate (each_party (\<lambda>rank. fst (snd (party pre rank)))) tag_mss_and_offline
              else returnK (each_party (\<lambda>rank. snd (snd (party pre rank))))) (\<lambda>r1.
         returnK (each_party (\<lambda>rank.
           let out_btype = fst (fst (party pre rank)) in
           \<lparr>b_backtype = out_btype, b_nbits = snd (fst (party pre rank)),
            b_elems = map (\<lambda>((l0, l1, l2), (r0, r1, r2), m0, m1).
                         (cast out_btype ((l0 AND r0) XOR (l0 AND r1) XOR (l1 AND r0) XOR m0),
                          cast out_btype ((l0 AND r0) XOR (l0 AND r2) XOR (l2 AND r0) XOR m1)))
                       (zip (m_elems (party lhs rank)) (zip (m_elems (party rhs rank))
                          (zip (fst (snd (party pre rank))) (party r1 rank))))\<rparr>))))))"

text \<open>The joint runs of the local gates, and the three- and four-input AND trees
  \<^verbatim>\<open>MssAnd3NoComm\<close> and \<^verbatim>\<open>MssAnd4NoComm\<close>, whose result is additive.\<close>

definition RssAnd2NoComm_all ::
  "BShrArray parties \<Rightarrow> BShrArray parties \<Rightarrow> (World, BShrArray parties) run" where
  "RssAnd2NoComm_all lhs rhs =
     with_cfg (\<lambda>c. local3 (\<lambda>rank. RssAnd2NoComm c (party lhs rank) (party rhs rank)))"

definition ResharingMss2Rss_all :: "MssArray parties \<Rightarrow> (World, BShrArray parties) run" where
  "ResharingMss2Rss_all inp = pure3 (\<lambda>rank. ResharingMss2Rss (party inp rank))"

definition ResharingRss2Ass_all :: "BShrArray parties \<Rightarrow> (World, BShrArray parties) run" where
  "ResharingRss2Ass_all inp = pure3 (\<lambda>rank. ResharingRss2Ass (party inp rank))"

definition AssXor2_all ::
  "BShrArray parties \<Rightarrow> BShrArray parties \<Rightarrow> (World, BShrArray parties) run" where
  "AssXor2_all lhs rhs = pure3 (\<lambda>rank. AssXor2 (party lhs rank) (party rhs rank))"

definition RssXor2_all ::
  "BShrArray parties \<Rightarrow> BShrArray parties \<Rightarrow> (World, BShrArray parties) run" where
  "RssXor2_all lhs rhs = pure3 (\<lambda>rank. RssXor2 (party lhs rank) (party rhs rank))"

definition MssAnd3NoComm ::
  "MssArray parties \<Rightarrow> MssArray parties \<Rightarrow> MssArray parties \<Rightarrow> (World, BShrArray parties) run" where
  "MssAnd3NoComm op1 op2 op3 =
     bindK (MssAnd2NoComm op1 op2) (\<lambda>lo_res.
     bindK (ResharingMss2Rss_all op3) (\<lambda>hi_res.
       RssAnd2NoComm_all lo_res hi_res))"

definition MssAnd4NoComm ::
  "MssArray parties \<Rightarrow> MssArray parties \<Rightarrow> MssArray parties \<Rightarrow> MssArray parties
     \<Rightarrow> (World, BShrArray parties) run" where
  "MssAnd4NoComm op1 op2 op3 op4 =
     bindK (MssAnd2NoComm op1 op2) (\<lambda>lo_res.
     bindK (MssAnd2NoComm op3 op4) (\<lambda>hi_res.
       RssAnd2NoComm_all lo_res hi_res))"

section \<open>Bit-split and packing\<close>

text \<open>C++ left shift \<^verbatim>\<open>T(v) << n\<close> of an unsigned element: a type narrower than
  \<^verbatim>\<open>int\<close> is promoted to the 32-bit \<^verbatim>\<open>int\<close> first, and a shift by the width of the
  (promoted) type or more is undefined.\<close>

definition shl :: "PtType \<Rightarrow> nat \<Rightarrow> nat \<Rightarrow> error + nat" where
  "shl ty v n =
     (if bits_of ty < 32
      then (if n < 32 \<and> v * 2 ^ n < 2 ^ 32 then Inr (v * 2 ^ n) else Inl UndefinedBehaviour)
      else (if n < bits_of ty then Inr (take_bit (bits_of ty) (push_bit n v))
            else Inl UndefinedBehaviour))"

text \<open>\<^verbatim>\<open>(1 << n) - 1\<close> with the literal \<^verbatim>\<open>1\<close> of type \<^verbatim>\<open>int\<close>: defined up to
  \<open>n = 30\<close>; at 31 the subtraction overflows and from 32 on the shift is undefined.\<close>

definition int_mask :: "nat \<Rightarrow> error + nat" where
  "int_mask n = (if n < 31 then Inr (2 ^ n - 1) else Inl UndefinedBehaviour)"

text \<open>Modelled from the spec: \<^verbatim>\<open>Log2Ceil\<close> (\<^verbatim>\<open>libspu/core/bit_utils.h\<close>), the ceiling of the
  binary logarithm, and \<^verbatim>\<open>yacl::pext_u64\<close>, the parallel bit extract: the bits of \<open>x\<close> at
  the positions set in the mask, packed into the low bits of the result.\<close>

function Log2Ceil :: "nat \<Rightarrow> nat" where
  "Log2Ceil x = (if x \<le> 1 then 0 else Suc (Log2Ceil ((x + 1) div 2)))"
  by pat_completeness auto
termination
  by (relation "measure id") auto

declare Log2Ceil.simps [simp del]

fun pext :: "nat \<Rightarrow> nat \<Rightarrow> nat \<Rightarrow> nat" where
  "pext 0 x m = 0"
| "pext (Suc n) x m =
     (if odd m then x mod 2 + 2 * pext n (x div 2) (m div 2) else pext n (x div 2) (m div 2))"

definition pext_u64 :: "nat \<Rightarrow> nat \<Rightarrow> nat" where
  "pext_u64 x m = pext 64 (take_bit 64 x) (take_bit 64 m)"

definition MakeUint128 :: "nat \<Rightarrow> nat \<Rightarrow> nat" where
  "MakeUint128 hi lo = hi * 2 ^ 64 + lo"

definition kSwapMasks :: "nat list" where
  "kSwapMasks =
     [MakeUint128 0x2222222222222222 0x2222222222222222,
      MakeUint128 0x0C0C0C0C0C0C0C0C 0x0C0C0C0C0C0C0C0C,
      MakeUint128 0x00F000F000F000F0 0x00F000F000F000F0,
      MakeUint128 0x0000FF000000FF00 0x0000FF000000FF00,
      MakeUint128 0x00000000FFFF0000 0x00000000FFFF0000,
      MakeUint128 0x0000000000000000 0xFFFFFFFF00000000]"

definition kKeepMasks :: "nat list" where
  "kKeepMasks =
     [MakeUint128 0x9999999999999999 0x9999999999999999,
      MakeUint128 0xC3C3C3C3C3C3C3C3 0xC3C3C3C3C3C3C3C3,
      MakeUint128 0xF00FF00FF00FF00F 0xF00FF00FF00FF00F,
      MakeUint128 0xFF0000FFFF0000FF 0xFF0000FFFF0000FF,
      MakeUint128 0xFFFF00000000FFFF 0xFFFF00000000FFFF,
      MakeUint128 0xFFFFFFFF00000000 0x00000000FFFFFFFF]"

text \<open>One pass of the butterfly loop on one slot, and the whole loop
  \<^verbatim>\<open>for (int k = 0; k + 1 < Log2Ceil(in_nbits); k++)\<close>.\<close>

definition swap_pass :: "PtType \<Rightarrow> nat \<Rightarrow> nat \<Rightarrow> nat" where
  "swap_pass in_ty r k =
     (let keep = cast in_ty (kKeepMasks ! k);
          move = cast in_ty (kSwapMasks ! k);
          shift = 2 ^ k
      in cast in_ty ((r AND keep) XOR (drop_bit shift r AND move) XOR push_bit shift (r AND move)))"

definition butterfly :: "PtType \<Rightarrow> nat \<Rightarrow> nat \<Rightarrow> nat" where
  "butterfly in_ty in_nbits r = foldl (swap_pass in_ty) r [0..<Log2Ceil in_nbits - 1]"

text \<open>The low and the high half of a slot after the butterfly, as both \<^verbatim>\<open>bit_split\<close>
  and \<^verbatim>\<open>bit_split_mss\<close> cut them.\<close>

definition lo_half :: "PtType \<Rightarrow> nat \<Rightarrow> nat \<Rightarrow> nat \<Rightarrow> nat" where
  "lo_half out_ty in_nbits msk r = cast out_ty (cast out_ty r AND msk)"

definition hi_half :: "PtType \<Rightarrow> nat \<Rightarrow> nat \<Rightarrow> nat \<Rightarrow> nat" where
  "hi_half out_ty in_nbits msk r = cast out_ty (cast out_ty (drop_bit (in_nbits div 2) r) AND msk)"

text \<open>\<^verbatim>\<open>bit_split\<close> on a B/RSS array; it returns the pair \<open>(hi, lo)\<close>. Storage types up
  to 64 bits take the \<^verbatim>\<open>pext_u64\<close> branch, whose argument is converted to
  \<^verbatim>\<open>uint64_t\<close>.\<close>

definition bit_split :: "BShrArray \<Rightarrow> error + (BShrArray \<times> BShrArray)" where
  "bit_split inp =
     (let in_nbits = b_nbits inp; in_ty = b_backtype inp in
      if \<not> (in_nbits \<noteq> 0 \<and> in_nbits mod 2 = 0) then Inl EnforceFailed
      else
        let out_nbits = in_nbits div 2 in
        bindE (calcBShareBacktype out_nbits) (\<lambda>out_backtype.
          if SizeOf out_backtype \<le> 8 then
            bindE (shl out_backtype 1 (in_nbits div 2)) (\<lambda>one_shifted.
              let S = 0x5555555555555555;
                  notS = 0xAAAAAAAAAAAAAAAA;
                  M = cast out_backtype (one_shifted - 1)
              in Inr (\<lparr>b_backtype = out_backtype, b_nbits = out_nbits,
                       b_elems = map (\<lambda>r. (cast out_backtype (pext_u64 (fst r) notS AND M),
                                           cast out_backtype (pext_u64 (snd r) notS AND M)))
                                     (b_elems inp)\<rparr>,
                      \<lparr>b_backtype = out_backtype, b_nbits = out_nbits,
                       b_elems = map (\<lambda>r. (cast out_backtype (pext_u64 (fst r) S AND M),
                                           cast out_backtype (pext_u64 (snd r) S AND M)))
                                     (b_elems inp)\<rparr>))
          else if 7 < Log2Ceil in_nbits then Inl UndefinedBehaviour
          else
            bindE (shl in_ty 1 (in_nbits div 2)) (\<lambda>one_shifted.
              let msk = cast in_ty (one_shifted - 1);
                  rs = map (\<lambda>r. (butterfly in_ty in_nbits (fst r), butterfly in_ty in_nbits (snd r)))
                           (b_elems inp)
              in Inr (\<lparr>b_backtype = out_backtype, b_nbits = out_nbits,
                       b_elems = map (\<lambda>r. (hi_half out_backtype in_nbits msk (fst r),
                                           hi_half out_backtype in_nbits msk (snd r))) rs\<rparr>,
                      \<lparr>b_backtype = out_backtype, b_nbits = out_nbits,
                       b_elems = map (\<lambda>r. (lo_half out_backtype in_nbits msk (fst r),
                                           lo_half out_backtype in_nbits msk (snd r))) rs\<rparr>))))"

text \<open>\<^verbatim>\<open>bit_split_mss\<close> on a B/MSS array: always the butterfly; it returns \<open>(hi, lo)\<close>.\<close>

definition bit_split_mss :: "MssArray \<Rightarrow> error + (MssArray \<times> MssArray)" where
  "bit_split_mss inp =
     (let in_nbits = m_nbits inp; in_ty = m_backtype inp in
      if \<not> (in_nbits \<noteq> 0 \<and> in_nbits mod 2 = 0) then Inl EnforceFailed
      else
        let out_nbits = in_nbits div 2 in
        bindE (calcBShareBacktype out_nbits) (\<lambda>out_backtype.
          if 7 < Log2Ceil in_nbits then Inl UndefinedBehaviour
          else
            bindE (shl in_ty 1 (in_nbits div 2)) (\<lambda>one_shifted.
              let msk = cast in_ty (one_shifted - 1);
                  rs = map (\<lambda>(r0, r1, r2). (butterfly in_ty in_nbits r0,
                              butterfly in_ty in_nbits r1, butterfly in_ty in_nbits r2))
                           (m_elems inp)
              in Inr (\<lparr>m_backtype = out_backtype, m_nbits = out_nbits,
                       m_elems = map (\<lambda>(r0, r1, r2). (hi_half out_backtype in_nbits msk r0,
                                   hi_half out_backtype in_nbits msk r1,
                                   hi_half out_backtype in_nbits msk r2)) rs\<rparr>,
                      \<lparr>m_backtype = out_backtype, m_nbits = out_nbits,
                       m_elems = map (\<lambda>(r0, r1, r2). (lo_half out_backtype in_nbits msk r0,
                                   lo_half out_backtype in_nbits msk r1,
                                   lo_half out_backtype in_nbits msk r2)) rs\<rparr>))))"

text \<open>\<^verbatim>\<open>pack_2_bitvec_ass\<close>, \<^verbatim>\<open>pack_2_bitvec_rss\<close> and \<^verbatim>\<open>pack_2_bitvec_mss\<close>. The shift
  count \<open>lo_nbits\<close> is below the width of \<^verbatim>\<open>out_el_t\<close>, which holds twice as many bits.\<close>

definition pack_slot :: "PtType \<Rightarrow> nat \<Rightarrow> nat \<Rightarrow> nat \<Rightarrow> nat" where
  "pack_slot out_btype lo_nbits l h = cast out_btype (l OR push_bit lo_nbits (cast out_btype h))"

definition pack_type :: "nat \<Rightarrow> nat \<Rightarrow> nat \<Rightarrow> nat \<Rightarrow> error + (PtType \<times> nat)" where
  "pack_type lo_nbits hi_nbits lo_numel hi_numel =
     (if lo_nbits \<noteq> hi_nbits then Inl AssertFailed
      else bindE (calcBShareBacktype (lo_nbits + hi_nbits)) (\<lambda>out_btype.
        if hi_numel < lo_numel then Inl UndefinedBehaviour
        else Inr (out_btype, lo_nbits + hi_nbits)))"

definition pack_2_bitvec_ass :: "BShrArray \<Rightarrow> BShrArray \<Rightarrow> error + BShrArray" where
  "pack_2_bitvec_ass lo hi =
     bindE (pack_type (b_nbits lo) (b_nbits hi) (length (b_elems lo)) (length (b_elems hi)))
       (\<lambda>(out_btype, out_nbits).
          Inr \<lparr>b_backtype = out_btype, b_nbits = out_nbits,
               b_elems = map (\<lambda>(l, h). (pack_slot out_btype (b_nbits lo) (fst l) (fst h), uninit))
                             (zip (b_elems lo) (b_elems hi))\<rparr>)"

definition pack_2_bitvec_rss :: "BShrArray \<Rightarrow> BShrArray \<Rightarrow> error + BShrArray" where
  "pack_2_bitvec_rss lo hi =
     bindE (pack_type (b_nbits lo) (b_nbits hi) (length (b_elems lo)) (length (b_elems hi)))
       (\<lambda>(out_btype, out_nbits).
          Inr \<lparr>b_backtype = out_btype, b_nbits = out_nbits,
               b_elems = map (\<lambda>(l, h). (pack_slot out_btype (b_nbits lo) (fst l) (fst h),
                                        pack_slot out_btype (b_nbits lo) (snd l) (snd h)))
                             (zip (b_elems lo) (b_elems hi))\<rparr>)"

definition pack_2_bitvec_mss :: "MssArray \<Rightarrow> MssArray \<Rightarrow> error + MssArray" where
  "pack_2_bitvec_mss lo hi =
     bindE (pack_type (m_nbits lo) (m_nbits hi) (length (m_elems lo)) (length (m_elems hi)))
       (\<lambda>(out_btype, out_nbits).
          Inr \<lparr>m_backtype = out_btype, m_nbits = out_nbits,
               m_elems = map (\<lambda>((l0, l1, l2), (h0, h1, h2)).
                                (pack_slot out_btype (m_nbits lo) l0 h0,
                                 pack_slot out_btype (m_nbits lo) l1 h1,
                                 pack_slot out_btype (m_nbits lo) l2 h2))
                             (zip (m_elems lo) (m_elems hi))\<rparr>)"

text \<open>\<^verbatim>\<open>unpack_2_bitvec_ass\<close>, \<^verbatim>\<open>unpack_2_bitvec_rss\<close> and \<^verbatim>\<open>unpack_2_bitvec_mss\<close>; each
  returns the pair \<open>(hi, lo)\<close>. The two masks are computed in \<^verbatim>\<open>int\<close>.\<close>

definition unpack_type :: "nat \<Rightarrow> error + ((PtType \<times> nat \<times> nat) \<times> (PtType \<times> nat \<times> nat))" where
  "unpack_type in_nbits =
     (if \<not> (in_nbits \<noteq> 0 \<and> in_nbits mod 2 = 0) then Inl AssertFailed
      else
        let lo_nbits = in_nbits div 2; hi_nbits = in_nbits - lo_nbits in
        bindE (calcBShareBacktype lo_nbits) (\<lambda>lo_btype.
        bindE (calcBShareBacktype hi_nbits) (\<lambda>hi_btype.
        bindE (int_mask lo_nbits) (\<lambda>lo_mask.
        bindE (int_mask hi_nbits) (\<lambda>hi_mask.
          Inr ((lo_btype, lo_nbits, lo_mask), (hi_btype, hi_nbits, hi_mask)))))))"

definition unpack_lo :: "PtType \<times> nat \<times> nat \<Rightarrow> nat \<Rightarrow> nat" where
  "unpack_lo t i = (case t of (lo_btype, lo_nbits, lo_mask) \<Rightarrow> cast lo_btype (i AND lo_mask))"

definition unpack_hi :: "nat \<Rightarrow> PtType \<times> nat \<times> nat \<Rightarrow> nat \<Rightarrow> nat" where
  "unpack_hi lo_nbits t i =
     (case t of (hi_btype, hi_nbits, hi_mask) \<Rightarrow> cast hi_btype (drop_bit lo_nbits i AND hi_mask))"

definition unpack_2_bitvec_ass :: "BShrArray \<Rightarrow> error + (BShrArray \<times> BShrArray)" where
  "unpack_2_bitvec_ass inp =
     bindE (unpack_type (b_nbits inp)) (\<lambda>(lo_t, hi_t).
       Inr (\<lparr>b_backtype = fst hi_t, b_nbits = fst (snd hi_t),
             b_elems = map (\<lambda>i. (unpack_hi (fst (snd lo_t)) hi_t (fst i), uninit)) (b_elems inp)\<rparr>,
            \<lparr>b_backtype = fst lo_t, b_nbits = fst (snd lo_t),
             b_elems = map (\<lambda>i. (unpack_lo lo_t (fst i), uninit)) (b_elems inp)\<rparr>))"

definition unpack_2_bitvec_rss :: "BShrArray \<Rightarrow> error + (BShrArray \<times> BShrArray)" where
  "unpack_2_bitvec_rss inp =
     bindE (unpack_type (b_nbits inp)) (\<lambda>(lo_t, hi_t).
       Inr (\<lparr>b_backtype = fst hi_t, b_nbits = fst (snd hi_t),
             b_elems = map (\<lambda>i. (unpack_hi (fst (snd lo_t)) hi_t (fst i),
                                 unpack_hi (fst (snd lo_t)) hi_t (snd i))) (b_elems inp)\<rparr>,
            \<lparr>b_backtype = fst lo_t, b_nbits = fst (snd lo_t),
             b_elems = map (\<lambda>i. (unpack_lo lo_t (fst i), unpack_lo lo_t (snd i)))
                           (b_elems inp)\<rparr>))"

definition unpack_2_bitvec_mss :: "MssArray \<Rightarrow> error + (MssArray \<times> MssArray)" where
  "unpack_2_bitvec_mss inp =
     bindE (unpack_type (m_nbits inp)) (\<lambda>(lo_t, hi_t).
       Inr (\<lparr>m_backtype = fst hi_t, m_nbits = fst (snd hi_t),
             m_elems = map (\<lambda>(i0, i1, i2). (unpack_hi (fst (snd lo_t)) hi_t i0,
                              unpack_hi (fst (snd lo_t)) hi_t i1,
                              unpack_hi (fst (snd lo_t)) hi_t i2)) (m_elems inp)\<rparr>,
            \<lparr>m_backtype = fst lo_t, m_nbits = fst (snd lo_t),
             m_elems = map (\<lambda>(i0, i1, i2). (unpack_lo lo_t i0, unpack_lo lo_t i1,
                              unpack_lo lo_t i2)) (m_elems inp)\<rparr>))"

section \<open>Most significant bit of an arithmetic share\<close>

text \<open>The first step of \<^verbatim>\<open>MsbA2BMultiFanIn\<close> and of \<^verbatim>\<open>A2BMultiFanIn\<close>: the arithmetic
  sharing \<open>(x0, x1, x2)\<close> becomes two masked Boolean operands \<open>m\<close> and \<open>n\<close>. A party
  first fills what it knows (the public slot it still waits for is left unassigned)
  and returns the buffer \<open>r1\<close> it will send.\<close>

definition split_local ::
  "Config \<Rightarrow> nat \<Rightarrow> nat \<Rightarrow> AShrArray
     \<Rightarrow> (PrgState, (nat \<times> nat \<times> nat) list \<times> (nat \<times> nat \<times> nat) list \<times> nat list) run" where
  "split_local c start_rank rank inp g =
     (let el_t = GetStorageType (a_field inp);
          start_rank_next = (start_rank + 1) mod 3
      in case fillPrssPair el_t (length (a_elems inp)) Both g of ((r0, r1), g') \<Rightarrow>
        let r0 = zero_fill_if (\<not> EQ_USE_PRG_STATE c) r0;
            r1 = zero_fill_if (\<not> EQ_USE_PRG_STATE c) r1;
            rows = zip (a_elems inp) (zip r0 r1)
        in Inr
          (if rank = start_rank then
             (map (\<lambda>(i, q0, q1). (cast el_t (q1 XOR (q0 XOR cast el_t (fst i + snd i))), q0, q1)) rows,
              map (\<lambda>(i, q0, q1). (uninit, 0, 0)) rows,
              map (\<lambda>(i, q0, q1). cast el_t (q1 XOR (q0 XOR cast el_t (fst i + snd i)))) rows)
           else if rank = start_rank_next then
             (map (\<lambda>(i, q0, q1). (uninit, q0, 0)) rows,
              map (\<lambda>(i, q0, q1). (cast el_t (q1 XOR snd i), 0, q1)) rows,
              map (\<lambda>(i, q0, q1). cast el_t (q1 XOR snd i)) rows)
           else
             (map (\<lambda>(i, q0, q1). (uninit, 0, q1)) rows,
              map (\<lambda>(i, q0, q1). (cast el_t (fst i XOR q0), q0, 0)) rows,
              map (\<lambda>(i, q0, q1). q1) rows), g'))"

definition set_public :: "nat list \<Rightarrow> (nat \<times> nat \<times> nat) list \<Rightarrow> (nat \<times> nat \<times> nat) list" where
  "set_public ds es = map (\<lambda>(d, (e0, e1, e2)). (d, e1, e2)) (zip ds es)"

definition split_to_mss ::
  "nat \<Rightarrow> AShrArray parties \<Rightarrow> (World, (MssArray \<times> MssArray) parties) run" where
  "split_to_mss start_rank inp =
     with_cfg (\<lambda>c.
       bindK (local3 (\<lambda>rank. split_local c start_rank rank (party inp rank))) (\<lambda>loc.
       bindK (bcast (each_party (\<lambda>rank. snd (snd (party loc rank)))) 0 tag_bcast_Dm) (\<lambda>bc.
       bindK (send_recv ((start_rank + 1) mod 3) start_rank
                (snd (snd (party loc ((start_rank + 1) mod 3)))) tag_send_dn2) (\<lambda>dn.
         returnK (each_party (\<lambda>rank.
           let ty = GetStorageType (a_field (party inp rank));
               nb = field_bits (a_field (party inp rank));
               ms = fst (party loc rank);
               ns = fst (snd (party loc rank))
           in if rank = start_rank
              then (\<lparr>m_backtype = ty, m_nbits = nb, m_elems = ms\<rparr>,
                    \<lparr>m_backtype = ty, m_nbits = nb, m_elems = set_public dn ns\<rparr>)
              else (\<lparr>m_backtype = ty, m_nbits = nb, m_elems = set_public (party bc rank) ms\<rparr>,
                    \<lparr>m_backtype = ty, m_nbits = nb, m_elems = ns\<rparr>)))))))"

text \<open>The propagate and generate signals: \<open>p = m XOR n\<close> slot by slot, and \<open>g = m AND n\<close>
  through \<^verbatim>\<open>MssAnd2NoComm\<close> and two resharings.\<close>

definition signal_p :: "MssArray \<times> MssArray \<Rightarrow> MssArray" where
  "signal_p mn =
     (case mn of (m, n) \<Rightarrow>
        \<lparr>m_backtype = m_backtype m, m_nbits = m_nbits m,
         m_elems = map (\<lambda>((m0, m1, m2), (n0, n1, n2)). (m0 XOR n0, m1 XOR n1, m2 XOR n2))
                       (zip (m_elems m) (m_elems n))\<rparr>)"

definition signal_g :: "(MssArray \<times> MssArray) parties \<Rightarrow> (World, MssArray parties) run" where
  "signal_g mn =
     bindK (MssAnd2NoComm (each_party (\<lambda>rank. fst (party mn rank)))
                          (each_party (\<lambda>rank. snd (party mn rank)))) (\<lambda>sig_g_rss.
     bindK (ResharingRss2Ass_all sig_g_rss) (\<lambda>sig_g_ass.
     bindK (ResharingAss2Mss sig_g_ass) (\<lambda>sig_g_mss.
       returnK (each_party (\<lambda>rank.
         \<lparr>m_backtype = m_backtype (fst (party mn rank)), m_nbits = m_nbits (fst (party mn rank)),
          m_elems = map (\<lambda>e. (cast (m_backtype (fst (party mn rank))) (fst e),
                              cast (m_backtype (fst (party mn rank))) (fst (snd e)),
                              cast (m_backtype (fst (party mn rank))) (snd (snd e))))
                        (m_elems (party sig_g_mss rank))\<rparr>)))))"

text \<open>Before the carry loop of \<^verbatim>\<open>MsbA2BMultiFanIn\<close>: the output takes the top bit of
  \<open>p\<close>, then the top bit of \<open>p\<close> is forced to 1 and that of \<open>g\<close> to 0. The masks are
  computed in \<^verbatim>\<open>unsigned long long\<close> (\<^verbatim>\<open>1ull << nbits\<close>).\<close>

definition msb_prepare ::
  "FieldType \<Rightarrow> MssArray \<Rightarrow> MssArray \<Rightarrow> error + (BShrArray \<times> MssArray \<times> MssArray)" where
  "msb_prepare field p g =
     (let el_t = GetStorageType field; nbits = SizeOfField field * 8 - 1 in
      bindE (shl PT_U64 1 nbits) (\<lambda>top.
        Inr (\<lparr>b_backtype = el_t, b_nbits = SizeOfField field * 8,
              b_elems = map (\<lambda>(p0, p1, p2). (cast el_t (drop_bit nbits (p0 XOR p1)),
                                              cast el_t (drop_bit nbits (p0 XOR p2)))) (m_elems p)\<rparr>,
             p\<lparr>m_elems := map (\<lambda>(p0, p1, p2). (cast el_t (top OR p0), cast el_t ((top - 1) AND p1),
                                                 cast el_t ((top - 1) AND p2))) (m_elems p)\<rparr>,
             g\<lparr>m_elems := map (\<lambda>(g0, g1, g2). (cast el_t ((top - 1) AND g0),
                      cast el_t ((top - 1) AND g1), cast el_t ((top - 1) AND g2))) (m_elems g)\<rparr>)))"

text \<open>One pass of the loop body up to the packed additive pair \<open>pg\<close>: two levels of
  \<^verbatim>\<open>bit_split_mss\<close> give the four operands of each group of four positions, and the
  group propagate and generate are formed by the AND trees.\<close>

definition split4 :: "MssArray \<Rightarrow> error + (MssArray \<times> MssArray \<times> MssArray \<times> MssArray)" where
  "split4 x =
     bindE (bit_split_mss x) (\<lambda>(x_hi, x_lo).
     bindE (bit_split_mss x_hi) (\<lambda>(ops3, ops1).
     bindE (bit_split_mss x_lo) (\<lambda>(ops2, ops0).
       Inr (ops0, ops1, ops2, ops3))))"

definition op0 :: "('a \<times> 'a \<times> 'a \<times> 'a) parties \<Rightarrow> 'a parties" where
  "op0 x = each_party (\<lambda>rank. fst (party x rank))"

definition op1 :: "('a \<times> 'a \<times> 'a \<times> 'a) parties \<Rightarrow> 'a parties" where
  "op1 x = each_party (\<lambda>rank. fst (snd (party x rank)))"

definition op2 :: "('a \<times> 'a \<times> 'a \<times> 'a) parties \<Rightarrow> 'a parties" where
  "op2 x = each_party (\<lambda>rank. fst (snd (snd (party x rank))))"

definition op3 :: "('a \<times> 'a \<times> 'a \<times> 'a) parties \<Rightarrow> 'a parties" where
  "op3 x = each_party (\<lambda>rank. snd (snd (snd (party x rank))))"

definition msb_round ::
  "MssArray parties \<Rightarrow> MssArray parties \<Rightarrow> (World, BShrArray parties) run" where
  "msb_round p g =
     bindK (pure3 (\<lambda>rank. split4 (party g rank))) (\<lambda>gops.
     bindK (pure3 (\<lambda>rank. split4 (party p rank))) (\<lambda>pops.
     bindK (MssAnd4NoComm (op0 pops) (op1 pops) (op2 pops) (op3 pops)) (\<lambda>p_res.
     bindK (ResharingMss2Rss_all (op3 gops)) (\<lambda>g3_rss.
     bindK (ResharingRss2Ass_all g3_rss) (\<lambda>g_res_3.
     bindK (MssAnd2NoComm (op2 gops) (op3 pops)) (\<lambda>g2_rss.
     bindK (ResharingRss2Ass_all g2_rss) (\<lambda>g_res_2.
     bindK (MssAnd3NoComm (op1 gops) (op3 pops) (op2 pops)) (\<lambda>g_res_1.
     bindK (MssAnd4NoComm (op0 gops) (op3 pops) (op2 pops) (op1 pops)) (\<lambda>g_res_0.
     bindK (AssXor2_all g_res_0 g_res_1) (\<lambda>g01.
     bindK (AssXor2_all g_res_2 g_res_3) (\<lambda>g23.
     bindK (AssXor2_all g01 g23) (\<lambda>g_combined.
       pure3 (\<lambda>rank. pack_2_bitvec_ass (party p_res rank) (party g_combined rank))))))))))))))"

text \<open>The loop \<^verbatim>\<open>while (k > 1)\<close>. After \<^verbatim>\<open>k /= 4\<close> the pair is reshared to B/MSS and
  the loop goes on when \<open>k > 1\<close>; otherwise it is reshared to B/RSS and the loop ends
  with the generate signal. Entered with \<open>k \<le> 1\<close>, the code would read the masked \<open>g\<close>
  through a view of byte pairs.\<close>

function msb_loop ::
  "nat \<Rightarrow> MssArray parties \<Rightarrow> MssArray parties \<Rightarrow> World \<Rightarrow> error + (BShrArray parties \<times> World)" where
  "msb_loop k p g w =
     (if k > 1 then
        (case msb_round p g w of
           Inl e \<Rightarrow> Inl e
         | Inr (pg, w1) \<Rightarrow>
             if k div 4 > 1 then
               (case bindK (ResharingAss2Mss pg)
                       (\<lambda>pg_mss. pure3 (\<lambda>rank. unpack_2_bitvec_mss (party pg_mss rank))) w1 of
                  Inl e \<Rightarrow> Inl e
                | Inr (gp, w2) \<Rightarrow>
                    msb_loop (k div 4) (each_party (\<lambda>rank. snd (party gp rank)))
                                       (each_party (\<lambda>rank. fst (party gp rank))) w2)
             else
               bindK (ResharingAss2Rss pg)
                 (\<lambda>pg_rss. bindK (pure3 (\<lambda>rank. unpack_2_bitvec_rss (party pg_rss rank)))
                    (\<lambda>gp. returnK (each_party (\<lambda>rank. fst (party gp rank))))) w1)
      else Inl UndefinedBehaviour)"
  by pat_completeness auto
termination
  by (relation "measure (\<lambda>(k, p, g, w). k)") auto

declare msb_loop.simps [simp del]

text \<open>After the loop the generate signal is read through a view of \<^verbatim>\<open>uint8_t\<close> pairs
  and XOR-ed into the output.\<close>

definition msb_finish :: "BShrArray \<Rightarrow> BShrArray \<Rightarrow> error + BShrArray" where
  "msb_finish out g =
     (if b_backtype g \<noteq> PT_U8 \<or> length (b_elems g) < length (b_elems out)
      then Inl UndefinedBehaviour
      else Inr (out\<lparr>b_elems := map (\<lambda>(e, c). (cast (b_backtype out) (fst e XOR take_bit 64 (fst c)),
                                            cast (b_backtype out) (snd e XOR take_bit 64 (snd c))))
                                   (zip (b_elems out) (b_elems g))\<rparr>))"

definition MsbA2BMultiFanIn :: "AShrArray parties \<Rightarrow> nat \<Rightarrow> (World, BShrArray parties) run" where
  "MsbA2BMultiFanIn inp start_rank =
     bindK (split_to_mss start_rank inp) (\<lambda>mn.
     bindK (signal_g mn) (\<lambda>g.
     bindK (pure3 (\<lambda>rank. msb_prepare (a_field (party inp rank))
                              (signal_p (party mn rank)) (party g rank))) (\<lambda>opg.
     bindK (msb_loop (SizeOfField (a_field (party inp 0)) * 8 - 1)
              (each_party (\<lambda>rank. fst (snd (party opg rank))))
              (each_party (\<lambda>rank. snd (snd (party opg rank))))) (\<lambda>g_rss.
       pure3 (\<lambda>rank. msb_finish (fst (party opg rank)) (party g_rss rank))))))"

text \<open>\<^verbatim>\<open>MsbA2B::proc\<close>: the start rank is the default argument of the declaration in
  \<^verbatim>\<open>conversion.h\<close>. Modelled from the spec: party 0 builds \<open>m\<close> and party 1 builds \<open>n\<close>,
  so the start rank is 0.\<close>

definition MsbA2B_proc :: "AShrArray parties \<Rightarrow> (World, BShrArray parties) run" where
  "MsbA2B_proc inp = MsbA2BMultiFanIn inp 0"

section \<open>Full arithmetic-to-Boolean conversion\<close>

text \<open>The helpers \<^verbatim>\<open>lshift\<close>, \<^verbatim>\<open>rshift\<close>, \<^verbatim>\<open>select\<close> and \<^verbatim>\<open>SelectAndRotate\<close>: their
  parameters and results are \<^verbatim>\<open>uint64_t\<close>, so an argument is converted to 64 bits.\<close>

definition lshift :: "nat \<Rightarrow> nat \<Rightarrow> nat" where
  "lshift x shift = take_bit 64 (push_bit shift (take_bit 64 x))"

definition rshift :: "nat \<Rightarrow> nat \<Rightarrow> nat" where
  "rshift x shift = drop_bit shift (take_bit 64 x)"

definition select :: "nat \<Rightarrow> nat \<Rightarrow> nat \<Rightarrow> nat \<Rightarrow> nat" where
  "select x msk offset idx =
     take_bit 64 (push_bit ((3 - idx) * offset)
       (take_bit 64 x AND take_bit 64 (push_bit (idx * offset) (take_bit 64 msk))))"

definition SelectAndRotate :: "nat \<Rightarrow> nat \<Rightarrow> nat \<Rightarrow> nat" where
  "SelectAndRotate x msk stride = take_bit 64 (push_bit stride (take_bit 64 x AND take_bit 64 msk))"

text \<open>A fresh B/MSS array of the field's type whose three slots are a function of the
  slots of another one.\<close>

definition mss_of_slots :: "FieldType \<Rightarrow> (nat \<Rightarrow> nat) \<Rightarrow> MssArray \<Rightarrow> MssArray" where
  "mss_of_slots field f x =
     (let el_t = GetStorageType field in
      \<lparr>m_backtype = el_t, m_nbits = SizeOfField field * 8,
       m_elems = map (\<lambda>(x0, x1, x2). (cast el_t (f x0), cast el_t (f x1), cast el_t (f x2)))
                     (m_elems x)\<rparr>)"

text \<open>\<^verbatim>\<open>PGCell_4FanIn4Out\<close>. The additive results of the four outputs are laid side by
  side in one word by the in-place XOR with shifted copies, then reshared to B/MSS.
  It returns \<open>(g, p)\<close>.\<close>

definition combine_g ::
  "PtType \<Rightarrow> BShrArray \<Rightarrow> BShrArray \<Rightarrow> BShrArray \<Rightarrow> BShrArray \<Rightarrow> BShrArray \<Rightarrow> BShrArray
     \<Rightarrow> BShrArray \<Rightarrow> BShrArray" where
  "combine_g el_t gr3 gr2 gr1 gr0 g3 g2 g1 =
     gr3\<lparr>b_elems :=
       map (\<lambda>(r3, r2, r1, r0, e3, e2, e1).
              (cast el_t (fst r3 XOR (rshift (fst r2) 1 XOR rshift (fst r1) 2 XOR rshift (fst r0) 3
                            XOR fst e3 XOR rshift (fst e2) 1 XOR rshift (fst e1) 2)),
               cast el_t (snd r3 XOR (rshift (snd r2) 1 XOR rshift (snd r1) 2 XOR rshift (snd r0) 3
                            XOR fst e3 XOR rshift (fst e2) 1 XOR rshift (fst e1) 2))))
           (zip (b_elems gr3) (zip (b_elems gr2) (zip (b_elems gr1) (zip (b_elems gr0)
              (zip (b_elems g3) (zip (b_elems g2) (b_elems g1)))))))\<rparr>"

definition combine_p ::
  "PtType \<Rightarrow> BShrArray \<Rightarrow> BShrArray \<Rightarrow> BShrArray \<Rightarrow> BShrArray \<Rightarrow> BShrArray" where
  "combine_p el_t pr3 pr2 pr1 pr0 =
     pr3\<lparr>b_elems :=
       map (\<lambda>(r3, r2, r1, r0).
              (cast el_t (fst r3 XOR (rshift (fst r2) 1 XOR rshift (fst r1) 2 XOR rshift (fst r0) 3)),
               cast el_t (snd r3 XOR (rshift (snd r2) 1 XOR rshift (snd r1) 2 XOR rshift (fst r0) 3))))
           (zip (b_elems pr3) (zip (b_elems pr2) (zip (b_elems pr1) (b_elems pr0))))\<rparr>"

definition PGCell_4FanIn4Out ::
  "MssArray parties \<Rightarrow> MssArray parties \<Rightarrow> MssArray parties \<Rightarrow> MssArray parties
   \<Rightarrow> MssArray parties \<Rightarrow> MssArray parties \<Rightarrow> MssArray parties \<Rightarrow> MssArray parties
   \<Rightarrow> (World, MssArray parties \<times> MssArray parties) run" where
  "PGCell_4FanIn4Out p0 p1 p2 p3 g0 g1 g2 g3 =
     bindK (ResharingMss2Rss_all p3) (\<lambda>p3_rss.
     bindK (ResharingMss2Rss_all p2) (\<lambda>p2_rss.
     bindK (ResharingMss2Rss_all g2) (\<lambda>g2_rss.
     bindK (ResharingMss2Rss_all g1) (\<lambda>g1_rss.
     bindK (MssAnd2NoComm p0 p1) (\<lambda>p01_rss.
     bindK (MssAnd2NoComm p2 p3) (\<lambda>p23_rss.
     bindK (MssAnd2NoComm g0 p1) (\<lambda>g0p1_rss.
     bindK (RssAnd2NoComm_all p01_rss p23_rss) (\<lambda>p0123_ass.
     bindK (RssAnd2NoComm_all p01_rss p2_rss) (\<lambda>p012_ass.
     bindK (RssAnd2NoComm_all g2_rss p3_rss) (\<lambda>g2p3_ass.
     bindK (RssAnd2NoComm_all g1_rss p23_rss) (\<lambda>g1p23_ass.
     bindK (RssAnd2NoComm_all g0p1_rss p23_rss) (\<lambda>g0p123_ass.
     bindK (RssAnd2NoComm_all g1_rss p2_rss) (\<lambda>g1p2_ass.
     bindK (RssAnd2NoComm_all g0p1_rss p2_rss) (\<lambda>g0p12_ass.
     bindK (AssXor2_all g1p23_ass g0p123_ass) (\<lambda>t.
     bindK (AssXor2_all g2p3_ass t) (\<lambda>gr3_ass.
     bindK (AssXor2_all g1p2_ass g0p12_ass) (\<lambda>gr2_ass.
     bindK (ResharingRss2Ass_all g0p1_rss) (\<lambda>gr1_ass.
     bindK (ResharingMss2Rss_all g0) (\<lambda>g0_rss.
     bindK (ResharingRss2Ass_all g0_rss) (\<lambda>gr0_ass.
     bindK (ResharingRss2Ass_all p01_rss) (\<lambda>pr1_ass.
     bindK (ResharingMss2Rss_all p0) (\<lambda>p0_rss.
     bindK (ResharingRss2Ass_all p0_rss) (\<lambda>pr0_ass.
     bindK (ResharingMss2Rss_all g3) (\<lambda>g3_rss.
     bindK (ResharingRss2Ass_all g3_rss) (\<lambda>g3_ass.
     bindK (ResharingRss2Ass_all g2_rss) (\<lambda>g2_ass.
     bindK (ResharingRss2Ass_all g1_rss) (\<lambda>g1_ass.
     bindK (ResharingAss2Mss (each_party (\<lambda>rank.
              combine_g (m_backtype (party p0 rank)) (party gr3_ass rank) (party gr2_ass rank)
                (party gr1_ass rank) (party gr0_ass rank) (party g3_ass rank) (party g2_ass rank)
                (party g1_ass rank)))) (\<lambda>first.
     bindK (ResharingAss2Mss (each_party (\<lambda>rank.
              combine_p (m_backtype (party p0 rank)) (party p0123_ass rank) (party p012_ass rank)
                (party pr1_ass rank) (party pr0_ass rank)))) (\<lambda>second.
     bindK (addCommStatsManually (- 1) 0) (\<lambda>_.
       returnK (first, second)))))))))))))))))))))))))))))))"

text \<open>\<^verbatim>\<open>PGCell_4FanIn1Out\<close>; it returns \<open>(g, p)\<close> of the top output only.\<close>

definition PGCell_4FanIn1Out ::
  "MssArray parties \<Rightarrow> MssArray parties \<Rightarrow> MssArray parties \<Rightarrow> MssArray parties
   \<Rightarrow> MssArray parties \<Rightarrow> MssArray parties \<Rightarrow> MssArray parties \<Rightarrow> MssArray parties
   \<Rightarrow> (World, MssArray parties \<times> MssArray parties) run" where
  "PGCell_4FanIn1Out p0 p1 p2 p3 g0 g1 g2 g3 =
     bindK (ResharingMss2Rss_all p3) (\<lambda>p3_rss.
     bindK (ResharingMss2Rss_all g2) (\<lambda>g2_rss.
     bindK (ResharingMss2Rss_all g1) (\<lambda>g1_rss.
     bindK (MssAnd2NoComm p0 p1) (\<lambda>p01_rss.
     bindK (MssAnd2NoComm p2 p3) (\<lambda>p23_rss.
     bindK (MssAnd2NoComm g0 p1) (\<lambda>g0p1_rss.
     bindK (RssAnd2NoComm_all p01_rss p23_rss) (\<lambda>p0123_ass.
     bindK (RssAnd2NoComm_all g2_rss p3_rss) (\<lambda>g2p3_ass.
     bindK (RssAnd2NoComm_all g1_rss p23_rss) (\<lambda>g1p23_ass.
     bindK (RssAnd2NoComm_all g0p1_rss p23_rss) (\<lambda>g0p123_ass.
     bindK (ResharingMss2Rss_all g3) (\<lambda>g3_rss.
     bindK (ResharingRss2Ass_all g3_rss) (\<lambda>g3_ass.
     bindK (AssXor2_all g3_ass g2p3_ass) (\<lambda>t0.
     bindK (AssXor2_all g1p23_ass g0p123_ass) (\<lambda>t1.
     bindK (AssXor2_all t0 t1) (\<lambda>gr3_ass.
     bindK (ResharingAss2Mss gr3_ass) (\<lambda>gr3_mss.
     bindK (ResharingAss2Mss p0123_ass) (\<lambda>pr3_mss.
     bindK (addCommStatsManually (- 1) 0) (\<lambda>_.
       returnK (gr3_mss, pr3_mss)))))))))))))))))))"

text \<open>The levels of \<^verbatim>\<open>A2BMultiFanIn\<close>. Level 0 takes the four positions of every group
  of four with \<^verbatim>\<open>select\<close>; levels 1 and 2 take the top positions at stride 4 and 16 with
  \<^verbatim>\<open>SelectAndRotate\<close> and write the cell's output back into the top position of
  every group.\<close>

definition level0 ::
  "FieldType \<Rightarrow> MssArray parties \<Rightarrow> MssArray parties
     \<Rightarrow> (World, MssArray parties \<times> MssArray parties) run" where
  "level0 field p g =
     (let ops = (\<lambda>x i. each_party (\<lambda>rank.
                   mss_of_slots field (\<lambda>v. select v 0x1111111111111111 1 i) (party x rank)))
      in PGCell_4FanIn4Out (ops p 0) (ops p 1) (ops p 2) (ops p 3)
                           (ops g 0) (ops g 1) (ops g 2) (ops g 3))"

definition write_back :: "PtType \<Rightarrow> MssArray \<Rightarrow> MssArray \<Rightarrow> MssArray" where
  "write_back el_t x ops0 =
     x\<lparr>m_elems := map (\<lambda>((x0, x1, x2), (y0, y1, y2)).
                         (cast el_t ((x0 AND 0x7777777777777777) XOR y0),
                          cast el_t ((x1 AND 0x7777777777777777) XOR y1),
                          cast el_t ((x2 AND 0x7777777777777777) XOR y2)))
                      (zip (m_elems x) (m_elems ops0))\<rparr>"

definition level12 ::
  "FieldType \<Rightarrow> nat \<Rightarrow> MssArray parties \<Rightarrow> MssArray parties
     \<Rightarrow> (World, MssArray parties \<times> MssArray parties) run" where
  "level12 field bit_offset p g =
     (let ops = (\<lambda>x i. each_party (\<lambda>rank.
                   mss_of_slots field
                     (\<lambda>v. SelectAndRotate v 0x8888888888888888 (bit_offset * (3 - i)))
                     (party x rank)))
      in bindK (PGCell_4FanIn1Out (ops p 0) (ops p 1) (ops p 2) (ops p 3)
                                  (ops g 0) (ops g 1) (ops g 2) (ops g 3)) (\<lambda>(gops0, pops0).
           returnK (each_party (\<lambda>rank.
                      write_back (GetStorageType field) (party g rank) (party gops0 rank)),
                    each_party (\<lambda>rank.
                      write_back (GetStorageType field) (party p rank) (party pops0 rank)))))"

text \<open>Level 3, the two-input cell: \<open>c = g XOR (gops0 AND pops)\<close> in B/RSS, where
  \<open>gops0\<close> spreads the carry of each group's top position over the next three
  positions.\<close>

definition level3 ::
  "FieldType \<Rightarrow> MssArray parties \<Rightarrow> MssArray parties \<Rightarrow> (World, BShrArray parties) run" where
  "level3 field p g =
     (let gops0 = each_party (\<lambda>rank. mss_of_slots field
                    (\<lambda>v. SelectAndRotate v 0x8888888888888888 1
                          XOR SelectAndRotate v 0x8888888888888888 2
                          XOR SelectAndRotate v 0x8888888888888888 3) (party g rank));
          gops1 = each_party (\<lambda>rank. mss_of_slots field (\<lambda>v. v) (party g rank));
          pops = each_party (\<lambda>rank. mss_of_slots field
                    (\<lambda>v. SelectAndRotate v 0x7777777777777777 0) (party p rank))
      in bindK (ResharingMss2Rss_all gops1) (\<lambda>g_rss.
         bindK (MssAnd2NoComm gops0 pops) (\<lambda>gp_rss.
           RssXor2_all g_rss gp_rss)))"

definition a2b_finish :: "FieldType \<Rightarrow> MssArray \<Rightarrow> BShrArray \<Rightarrow> error + BShrArray" where
  "a2b_finish field p c =
     (let el_t = GetStorageType field in
      if length (b_elems c) < length (m_elems p) then Inl UndefinedBehaviour
      else Inr \<lparr>b_backtype = el_t, b_nbits = SizeOfField field * 8,
                b_elems = map (\<lambda>((p0, p1, p2), c0, c1).
                                 (cast el_t (cast el_t (p0 XOR p1) XOR lshift c0 1),
                                  cast el_t (cast el_t (p0 XOR p2) XOR lshift c1 1)))
                              (zip (m_elems p) (b_elems c))\<rparr>)"

definition A2BMultiFanIn :: "AShrArray parties \<Rightarrow> (World, BShrArray parties) run" where
  "A2BMultiFanIn inp =
     (let field = a_field (party inp 0) in
      bindK (split_to_mss 0 inp) (\<lambda>mn.
      bindK (addCommStatsManually (- 1) 0) (\<lambda>_.
      bindK (addCommStatsManually (- 1) 0) (\<lambda>_.
      bindK (signal_g mn) (\<lambda>g.
      bindK (returnK (each_party (\<lambda>rank. signal_p (party mn rank)))) (\<lambda>p.
      bindK (level0 field p g) (\<lambda>(g0, p0).
      bindK (level12 field 4 p0 g0) (\<lambda>(g1, p1).
      bindK (level12 field 16 p1 g1) (\<lambda>(g2, p2).
      bindK (level3 field p2 g2) (\<lambda>c.
        pure3 (\<lambda>rank. a2b_finish field (party p rank) (party c rank))))))))))))"

text \<open>\<^verbatim>\<open>A2B::proc\<close>.\<close>

definition A2B_proc :: "AShrArray parties \<Rightarrow> (World, BShrArray parties) run" where
  "A2B_proc inp = A2BMultiFanIn inp"

definition revealed_b :: "(World, BShrArray parties) run \<Rightarrow> World \<Rightarrow> error + nat list" where
  "revealed_b r w = (case r w of Inl e \<Rightarrow> Inl e | Inr (out, w') \<Rightarrow> Inr (reconstruct_b out))"

section \<open>Properties\<close>

subsection \<open>Back-storage type of a Boolean share\<close>

lemma SizeOf_cases: "SizeOf ty \<in> {1, 2, 4, 8, 16}"
  by (cases ty) simp_all

text \<open>
  Claim C9. For every \<open>nbits\<close> from 0 through 128, \<open>calcBShareBacktype\<close> returns the
  smallest unsigned storage type among the widths 8, 16, 32, 64 and 128 that has at
  least \<open>nbits\<close> bits (so the \<open>BShrTy\<close> constructor accepts it), and it fails for every
  \<open>nbits\<close> greater than 128.
\<close>

theorem calcBShareBacktype_smallest:
  "(nbits \<le> 128 \<longrightarrow>
      (\<exists>ty. calcBShareBacktype nbits = Inr ty
          \<and> nbits \<le> bits_of ty
          \<and> BShrTy ty nbits = Inr (ty, nbits)
          \<and> (\<forall>ty'. nbits \<le> bits_of ty' \<longrightarrow> bits_of ty \<le> bits_of ty')))
   \<and> (128 < nbits \<longrightarrow> calcBShareBacktype nbits = Inl (InvalidNbits nbits))"
proof (intro conjI impI)
  assume le: "nbits \<le> 128"
  have min: "\<And>ty'. nbits \<le> bits_of ty' \<Longrightarrow>
      bits_of (case calcBShareBacktype nbits of Inr t \<Rightarrow> t | Inl _ \<Rightarrow> PT_U128) \<le> bits_of ty'"
  proof -
    fix ty' assume "nbits \<le> bits_of ty'"
    then show "bits_of (case calcBShareBacktype nbits of Inr t \<Rightarrow> t | Inl _ \<Rightarrow> PT_U128)
        \<le> bits_of ty'"
      by (cases ty') (simp_all add: calcBShareBacktype_def bits_of_def)
  qed
  from le consider "nbits \<le> 8" | "8 < nbits" "nbits \<le> 16" | "16 < nbits" "nbits \<le> 32"
    | "32 < nbits" "nbits \<le> 64" | "64 < nbits" "nbits \<le> 128"
    by linarith
  then show "\<exists>ty. calcBShareBacktype nbits = Inr ty \<and> nbits \<le> bits_of ty
      \<and> BShrTy ty nbits = Inr (ty, nbits)
      \<and> (\<forall>ty'. nbits \<le> bits_of ty' \<longrightarrow> bits_of ty \<le> bits_of ty')"
  proof cases
    case 1
    then have "calcBShareBacktype nbits = Inr PT_U8" by (simp add: calcBShareBacktype_def)
    with 1 min show ?thesis by (auto simp: bits_of_def BShrTy_def)
  next
    case 2
    then have "calcBShareBacktype nbits = Inr PT_U16" by (simp add: calcBShareBacktype_def)
    with 2 min show ?thesis by (auto simp: bits_of_def BShrTy_def)
  next
    case 3
    then have "calcBShareBacktype nbits = Inr PT_U32" by (simp add: calcBShareBacktype_def)
    with 3 min show ?thesis by (auto simp: bits_of_def BShrTy_def)
  next
    case 4
    then have "calcBShareBacktype nbits = Inr PT_U64" by (simp add: calcBShareBacktype_def)
    with 4 min show ?thesis by (auto simp: bits_of_def BShrTy_def)
  next
    case 5
    then have "calcBShareBacktype nbits = Inr PT_U128" by (simp add: calcBShareBacktype_def)
    with 5 min show ?thesis by (auto simp: bits_of_def BShrTy_def)
  qed
next
  assume "128 < nbits"
  then show "calcBShareBacktype nbits = Inl (InvalidNbits nbits)"
    by (simp add: calcBShareBacktype_def)
qed

theorem calcBShareBacktype_smallest_witness:
  "calcBShareBacktype 17 = Inr PT_U32 \<and> (17::nat) \<le> bits_of PT_U32
   \<and> \<not> (17::nat) \<le> bits_of PT_U16
   \<and> calcBShareBacktype 129 = Inl (InvalidNbits 129)"
  using calcBShareBacktype_smallest [of 17] calcBShareBacktype_smallest [of 129]
  by (simp add: calcBShareBacktype_def bits_of_def)

end
